theory Spec2Isabelle
  imports Main
begin

section \<open>Values shared by the controllers\<close>

text \<open>
  A document id is modelled by its string form: the controllers compare ids through
  \<^verbatim>\<open>toString()\<close> or through the store's equality on ids, and path parameters arrive as
  strings. The viewer is the identity that the authentication step has attached to the
  request as \<^verbatim>\<open>req.user\<close>; every handler below that reads \<^verbatim>\<open>req.user._id\<close> takes it
  as the argument \<open>viewer\<close>.
\<close>

type_synonym objectId = string

text \<open>
  What a handler can throw: the repository's \<^verbatim>\<open>ApiError(statusCode, message)\<close>, the
  runtime's \<^verbatim>\<open>TypeError\<close> and \<^verbatim>\<open>ReferenceError\<close>, the errors of the token library, and
  the two errors of the document mapper for a value that does not cast to the type of its
  path: \<^verbatim>\<open>CastError\<close> from a query and \<^verbatim>\<open>ValidationError\<close> from saving a document, each
  given by the path and the value.
\<close>

datatype error =
    ApiError nat string
  | TypeError string
  | ReferenceError string
  | JsonWebTokenError string
  | CastError string string
  | ValidationError string string

fun error_message :: "error \<Rightarrow> string" where
  "error_message (ApiError sc m) = m"
| "error_message (TypeError m) = m"
| "error_message (ReferenceError m) = m"
| "error_message (JsonWebTokenError m) = m"
| "error_message (CastError p v) = ''Cast to ObjectId failed for value '' @ v @ '' at path '' @ p"
| "error_message (ValidationError p v) =
     ''Validation failed: '' @ p @ '': Cast to ObjectId failed for value '' @ v"

text \<open>
  \<^verbatim>\<open>class ApiResponse { constructor(statusCode, data, message = "Success") ... }\<close>
  with \<^verbatim>\<open>this.success = statusCode < 400\<close>.
\<close>

record 'a ApiResponse =
  statusCode :: nat
  data :: 'a
  message :: string
  success :: bool

definition mkApiResponse :: "nat \<Rightarrow> 'a \<Rightarrow> string \<Rightarrow> 'a ApiResponse" where
  "mkApiResponse sc d m = \<lparr>statusCode = sc, data = d, message = m, success = (sc < 400)\<rparr>"

text \<open>
  What \<^verbatim>\<open>res.status(s).cookie(n, v, options)...json(b)\<close> sends: the status, the cookies in
  the order they were set (a value \<open>None\<close> is the JavaScript \<^verbatim>\<open>undefined\<close>), and the body.
\<close>

record 'a response =
  status :: nat
  cookies :: "(string \<times> string option) list"
  body :: "'a ApiResponse"

text \<open>
  A value handed to \<^verbatim>\<open>ApiResponse\<close> as its data: a document, a string, or a
  function object (given by its name).
\<close>

datatype 'a js_data = Doc 'a | Text string | Function string

text \<open>
  Truthiness of a possibly missing string (\<^verbatim>\<open>!s\<close> holds of \<^verbatim>\<open>undefined\<close> and of the
  empty string), and of a function object (always truthy).
\<close>

definition truthy :: "string option \<Rightarrow> bool" where
  "truthy s = (case s of None \<Rightarrow> False | Some x \<Rightarrow> x \<noteq> [])"

definition truthy_function :: "('a \<Rightarrow> 'b) \<Rightarrow> bool" where
  "truthy_function f = True"

text \<open>
  \<^verbatim>\<open>String.prototype.trim\<close> on text in the ASCII range: it strips tab, line feed,
  vertical tab, form feed, carriage return and space from both ends.
\<close>

definition is_space :: "char \<Rightarrow> bool" where
  "is_space c = (c = CHR 0x09 \<or> c = CHR 0x0A \<or> c = CHR 0x0B \<or> c = CHR 0x0C
     \<or> c = CHR 0x0D \<or> c = CHR 0x20)"

definition trim :: "string \<Rightarrow> string" where
  "trim s = rev (dropWhile is_space (rev (dropWhile is_space s)))"

section \<open>The document store\<close>

text \<open>
  Each collection is the list of its documents in natural (insertion) order. The records
  hold the fields that the controllers read or write; of the timestamps that the store
  keeps on its own, only \<^verbatim>\<open>createdAt\<close> of a tweet is read (by the feed) and modelled.
  Queries compare ids by equality. Where a handler hands a path parameter to the store
  without having checked it (\<^verbatim>\<open>toggleSubscription\<close>), the cast of the string to an id
  inside the document mapper is part of the model.
\<close>

record user =
  user_id :: objectId
  username :: string
  email :: string
  fullName :: string
  avatar :: string
  coverImage :: string
  watchHistory :: "objectId list"
  password :: string
  refreshToken :: "string option"

record tweet =
  tweet_id :: objectId
  content :: string
  tweetOwner :: objectId
  createdAt :: nat

record like =
  like_id :: objectId
  like_tweet :: "objectId option"
  likedBy :: objectId

record subscription =
  subscription_id :: objectId
  subscriber :: objectId
  channel :: objectId

record video =
  video_id :: objectId
  owner :: objectId
  metadata :: string

record db =
  users :: "user list"
  tweets :: "tweet list"
  likes :: "like list"
  subscriptions :: "subscription list"
  videos :: "video list"

text \<open>
  An outcome of a handler: what it throws or sends, and the store it leaves. Every handler
  is wrapped in \<^verbatim>\<open>asyncHandler\<close>, which passes what the handler throws to \<^verbatim>\<open>next(err)\<close>:
  the outcome \<open>Inl e\<close> stands for that call.
\<close>

type_synonym 'a outcome = "(error + 'a) \<times> db"

subsection \<open>Operations of the tweet collection\<close>

definition Tweet_findById :: "db \<Rightarrow> objectId \<Rightarrow> tweet option" where
  "Tweet_findById d i = find (\<lambda>t. tweet_id t = i) (tweets d)"

text \<open>\<^verbatim>\<open>$set: {content: c}\<close> on the first document with the id.\<close>

fun set_content :: "objectId \<Rightarrow> string \<Rightarrow> tweet list \<Rightarrow> tweet list" where
  "set_content i c [] = []"
| "set_content i c (t # ts) =
     (if tweet_id t = i then t\<lparr>content := c\<rparr> # ts else t # set_content i c ts)"

text \<open>\<^verbatim>\<open>findByIdAndUpdate(id, {$set: {content}}, {new: true})\<close>: the updated document, or null.\<close>

definition Tweet_findByIdAndUpdate :: "db \<Rightarrow> objectId \<Rightarrow> string \<Rightarrow> tweet option \<times> db" where
  "Tweet_findByIdAndUpdate d i c =
     (let d' = d\<lparr>tweets := set_content i c (tweets d)\<rparr> in (Tweet_findById d' i, d'))"

fun remove_tweet :: "objectId \<Rightarrow> tweet list \<Rightarrow> tweet list" where
  "remove_tweet i [] = []"
| "remove_tweet i (t # ts) = (if tweet_id t = i then ts else t # remove_tweet i ts)"

text \<open>\<^verbatim>\<open>findByIdAndDelete(id)\<close>: the deleted document, or null.\<close>

definition Tweet_findByIdAndDelete :: "db \<Rightarrow> objectId \<Rightarrow> tweet option \<times> db" where
  "Tweet_findByIdAndDelete d i =
     (Tweet_findById d i, d\<lparr>tweets := remove_tweet i (tweets d)\<rparr>)"

section \<open>Tweet controller\<close>

text \<open>
  \<^verbatim>\<open>updateTweet\<close>. The library predicate \<^verbatim>\<open>isValidObjectId\<close> is an argument. The body's
  \<^verbatim>\<open>content\<close> may be missing. The success response carries \<^verbatim>\<open>updateTweet\<close>, the handler
  itself, as its data.
\<close>

definition updateTweet ::
  "(string \<Rightarrow> bool) \<Rightarrow> db \<Rightarrow> objectId \<Rightarrow> string \<Rightarrow> string option
     \<Rightarrow> (tweet js_data) response outcome" where
  "updateTweet isValidObjectId d viewer tweetId content' =
     (if \<not> isValidObjectId tweetId then (Inl (ApiError 400 ''Invalid tweet id..''), d)
      else case Tweet_findById d tweetId of
        None \<Rightarrow> (Inl (ApiError 404 '' Tweet not foun..''), d)
      | Some tweet \<Rightarrow>
          if tweetOwner tweet \<noteq> viewer
          then (Inl (ApiError 404 ''You are not authorized to update this tweet..''), d)
          else if \<not> truthy content'
          then (Inl (ApiError 404 ''Tweet content required..''), d)
          else
            let updatedContent =
                  (if trim (the content') \<noteq> [] then the content' else content tweet);
                (updatedTweet, d') = Tweet_findByIdAndUpdate d tweetId updatedContent
            in (case updatedTweet of
                  None \<Rightarrow>
                    (Inl (ApiError 500 ''Something went wrong while updating tweet..''), d')
                | Some u \<Rightarrow>
                    (Inr \<lparr>status = 200, cookies = [],
                          body = mkApiResponse 200 (Function ''updateTweet'')
                                   ''Tweet Updated Successfully...''\<rparr>, d')))"

text \<open>\<^verbatim>\<open>deleteTweet\<close>.\<close>

definition deleteTweet ::
  "(string \<Rightarrow> bool) \<Rightarrow> db \<Rightarrow> objectId \<Rightarrow> string \<Rightarrow> (tweet js_data) response outcome" where
  "deleteTweet isValidObjectId d viewer tweetId =
     (if \<not> isValidObjectId tweetId then (Inl (ApiError 400 ''Invalid tweet id..''), d)
      else case Tweet_findById d tweetId of
        None \<Rightarrow> (Inl (ApiError 404 ''Tweet not found..''), d)
      | Some tweet \<Rightarrow>
          if tweetOwner tweet \<noteq> viewer
          then (Inl (ApiError 403 ''You are not authorized to delete this tweet..''), d)
          else
            let (deletedTweet, d') = Tweet_findByIdAndDelete d tweetId
            in (case deletedTweet of
                  None \<Rightarrow>
                    (Inl (ApiError 500 ''Something went wrong while deleting tweet..''), d')
                | Some t \<Rightarrow>
                    (Inr \<lparr>status = 200, cookies = [],
                          body = mkApiResponse 200 (Doc t) ''Tweet deleted successfully..''\<rparr>,
                     d')))"

text \<open>
  \<^verbatim>\<open>getUserTweets\<close>: the aggregation pipeline, stage by stage. The first lookup joins the
  owner through \<^verbatim>\<open>$project: {fullName: 1, username: 1, avatar: 1}\<close> (which keeps the id),
  the second joins the likes of the tweet through \<^verbatim>\<open>$project: {likedBy: 1}\<close>.
\<close>

record profile =
  profile_id :: objectId
  profile_fullName :: string
  profile_username :: string
  profile_avatar :: string

definition project_profile :: "user \<Rightarrow> profile" where
  "project_profile u =
     \<lparr>profile_id = user_id u, profile_fullName = fullName u,
      profile_username = username u, profile_avatar = avatar u\<rparr>"

definition lookup_users :: "db \<Rightarrow> objectId \<Rightarrow> profile list" where
  "lookup_users d i = map project_profile (filter (\<lambda>u. user_id u = i) (users d))"

text \<open>\<^verbatim>\<open>$first\<close>: the first element of the joined array, or missing.\<close>

definition first :: "'a list \<Rightarrow> 'a option" where
  "first xs = (case xs of [] \<Rightarrow> None | x # _ \<Rightarrow> Some x)"

record like_detail =
  detail_id :: objectId
  detail_likedBy :: objectId

definition lookup_likes :: "db \<Rightarrow> objectId \<Rightarrow> like_detail list" where
  "lookup_likes d i =
     map (\<lambda>l. \<lparr>detail_id = like_id l, detail_likedBy = likedBy l\<rparr>)
       (filter (\<lambda>l. like_tweet l = Some i) (likes d))"

record tweet_row =
  row_id :: objectId
  row_fullName :: "string option"
  row_username :: "string option"
  row_avatar :: "string option"
  row_content :: string
  likeCount :: nat
  isLiked :: bool
  row_createdAt :: nat

definition compose_tweet :: "db \<Rightarrow> objectId \<Rightarrow> tweet \<Rightarrow> tweet_row" where
  "compose_tweet d viewer t =
     (let tweetOwner' = lookup_users d (tweetOwner t);
          likeDetails = lookup_likes d (tweet_id t);
          tweetOwner'' = first tweetOwner';
          likeCount' = length likeDetails;
          isLiked' = (if viewer \<in> set (map detail_likedBy likeDetails) then True else False)
      in \<lparr>row_id = tweet_id t,
          row_fullName = map_option profile_fullName tweetOwner'',
          row_username = map_option profile_username tweetOwner'',
          row_avatar = map_option profile_avatar tweetOwner'',
          row_content = content t,
          likeCount = likeCount',
          isLiked = isLiked',
          row_createdAt = createdAt t\<rparr>)"

definition getUserTweets_aggregate :: "db \<Rightarrow> objectId \<Rightarrow> tweet_row list" where
  "getUserTweets_aggregate d viewer =
     map (compose_tweet d viewer) (filter (\<lambda>t. tweetOwner t = viewer) (tweets d))"

text \<open>
  The handler runs the pipeline and then builds its response with \<^verbatim>\<open>new ApiResponce(...)\<close>,
  a name that the module neither imports nor declares: evaluating it throws.
\<close>

definition getUserTweets :: "db \<Rightarrow> objectId \<Rightarrow> (tweet_row list) response outcome" where
  "getUserTweets d viewer =
     (let tweets' = getUserTweets_aggregate d viewer
      in (Inl (ReferenceError ''ApiResponce is not defined''), d))"

section \<open>Subscription controller\<close>

text \<open>
  The field \<^verbatim>\<open>channel\<close> of a subscription holds an object id (the pipelines below match
  it against \<^verbatim>\<open>new mongoose.Types.ObjectId(channelId)\<close>), and \<^verbatim>\<open>toggleSubscription\<close> hands
  the path parameter \<^verbatim>\<open>channelId\<close> to the store as a string. The document mapper casts
  the string first. Its cast is the argument \<open>castObjectId\<close>: the id that a string stands
  for, or nothing for a malformed string.

  \<^verbatim>\<open>Subscription.findOne({subscriber, channel: channelId})\<close>: a value that does not cast
  makes the query throw \<^verbatim>\<open>CastError\<close>; otherwise the first document that matches, or null.
\<close>

definition Subscription_findOne ::
  "(string \<Rightarrow> objectId option) \<Rightarrow> db \<Rightarrow> objectId \<Rightarrow> string
     \<Rightarrow> error + subscription option" where
  "Subscription_findOne castObjectId d s c =
     (case castObjectId c of
        None \<Rightarrow> Inl (CastError ''channel'' c)
      | Some c' \<Rightarrow>
          Inr (find (\<lambda>e. subscriber e = s \<and> channel e = c') (subscriptions d)))"

fun remove_subscription :: "objectId \<Rightarrow> subscription list \<Rightarrow> subscription list" where
  "remove_subscription i [] = []"
| "remove_subscription i (e # es) =
     (if subscription_id e = i then es else e # remove_subscription i es)"

definition Subscription_findByIdAndDelete :: "db \<Rightarrow> objectId \<Rightarrow> db" where
  "Subscription_findByIdAndDelete d i =
     d\<lparr>subscriptions := remove_subscription i (subscriptions d)\<rparr>"

text \<open>
  \<^verbatim>\<open>Subscription.create({subscriber, channel: channelId})\<close>: a value that does not cast
  fails the validation of the new document; otherwise the document is stored under the id
  \<open>newId\<close> that the store gives it, with the cast id as its channel.
\<close>

definition Subscription_create ::
  "(string \<Rightarrow> objectId option) \<Rightarrow> objectId \<Rightarrow> db \<Rightarrow> objectId \<Rightarrow> string
     \<Rightarrow> (error + subscription option) \<times> db" where
  "Subscription_create castObjectId newId d s c =
     (case castObjectId c of
        None \<Rightarrow> (Inl (ValidationError ''channel'' c), d)
      | Some c' \<Rightarrow>
          let e = \<lparr>subscription_id = newId, subscriber = s, channel = c'\<rparr>
          in (Inr (Some e), d\<lparr>subscriptions := subscriptions d @ [e]\<rparr>))"

text \<open>
  \<^verbatim>\<open>toggleSubscription\<close>. Its guard is \<^verbatim>\<open>if (!isValidObjectId)\<close>: it tests the function
  object, not the function's result on \<^verbatim>\<open>channelId\<close>.
\<close>

definition toggleSubscription ::
  "(string \<Rightarrow> bool) \<Rightarrow> (string \<Rightarrow> objectId option) \<Rightarrow> objectId \<Rightarrow> db \<Rightarrow> objectId
     \<Rightarrow> string \<Rightarrow> (subscription js_data) response outcome" where
  "toggleSubscription isValidObjectId castObjectId newId d viewer channelId =
     (if \<not> truthy_function isValidObjectId
      then (Inl (ApiError 400 ''Invalid Channel id..''), d)
      else
        (case Subscription_findOne castObjectId d viewer channelId of
           Inl e \<Rightarrow> (Inl e, d)
         | Inr (Some alreadySubscribed) \<Rightarrow>
             (Inr \<lparr>status = 200, cookies = [],
                   body = mkApiResponse 200 (Text ''Unscribed from channerl'') ''Success''\<rparr>,
              Subscription_findByIdAndDelete d (subscription_id alreadySubscribed))
         | Inr None \<Rightarrow>
             (case Subscription_create castObjectId newId d viewer channelId of
                (Inl e, d') \<Rightarrow> (Inl e, d')
              | (Inr None, d') \<Rightarrow> (Inl (ApiError 500 ''Unable to subscribe to channel''), d')
              | (Inr (Some n), d') \<Rightarrow>
                  (Inr \<lparr>status = 200, cookies = [],
                        body = mkApiResponse 200 (Doc n)
                                 ''Successfully subscribed to channel''\<rparr>, d'))))"

text \<open>
  The rows of both list pipelines: the subscription document with the added field
  \<^verbatim>\<open>subscriberInfo\<close>. The result of an aggregation is an array, and an array is truthy:
  the guards \<^verbatim>\<open>if (!subscribers)\<close>, \<^verbatim>\<open>if (!channelList)\<close> and \<^verbatim>\<open>if (!tweets)\<close> never
  throw.
\<close>

record subscription_row =
  row_subscription :: subscription
  subscriberInfo :: "profile option"

text \<open>
  \<^verbatim>\<open>getUserChannelSubscribers\<close>: \<^verbatim>\<open>$match: {channel}\<close>, then
  \<^verbatim>\<open>$lookup: {from: "users", localField: "subscriber", as: "subscriberInfo"}\<close>.
\<close>

definition getUserChannelSubscribers ::
  "(string \<Rightarrow> bool) \<Rightarrow> db \<Rightarrow> string \<Rightarrow> (subscription_row list) response outcome" where
  "getUserChannelSubscribers isValidObjectId d channelId =
     (if \<not> isValidObjectId channelId then (Inl (ApiError 400 ''Invalid Channel id..''), d)
      else
        let subscribers =
              map (\<lambda>e. \<lparr>row_subscription = e,
                         subscriberInfo = first (lookup_users d (subscriber e))\<rparr>)
                (filter (\<lambda>e. channel e = channelId) (subscriptions d))
        in (Inr \<lparr>status = 200, cookies = [],
                  body = mkApiResponse 200 subscribers ''Successfully fatched subscriber''\<rparr>,
            d))"

text \<open>
  \<^verbatim>\<open>getSubscribedChannels\<close>: \<^verbatim>\<open>$match: {subscriber}\<close>, then the same
  \<^verbatim>\<open>$lookup: {from: "users", localField: "subscriber", as: "subscriberInfo"}\<close>.
\<close>

definition getSubscribedChannels :: "db \<Rightarrow> objectId \<Rightarrow> (subscription_row list) response outcome" where
  "getSubscribedChannels d viewer =
     (let channelId = viewer;
          channelList =
            map (\<lambda>e. \<lparr>row_subscription = e,
                       subscriberInfo = first (lookup_users d (subscriber e))\<rparr>)
              (filter (\<lambda>e. subscriber e = channelId) (subscriptions d))
      in (Inr \<lparr>status = 200, cookies = [],
                body = mkApiResponse 200 channelList ''Successfully fatched channel list''\<rparr>,
          d))"

section \<open>User controller\<close>

subsection \<open>Operations of the user collection\<close>

text \<open>\<^verbatim>\<open>User.findById(id)\<close>, where the id may be \<^verbatim>\<open>undefined\<close>.\<close>

definition User_findById :: "db \<Rightarrow> objectId option \<Rightarrow> user option" where
  "User_findById d i =
     (case i of None \<Rightarrow> None | Some j \<Rightarrow> find (\<lambda>u. user_id u = j) (users d))"

text \<open>\<^verbatim>\<open>user.save()\<close>: the document replaces the stored one with its id.\<close>

fun replace_user :: "user \<Rightarrow> user list \<Rightarrow> user list" where
  "replace_user u [] = []"
| "replace_user u (v # vs) =
     (if user_id v = user_id u then u # vs else v # replace_user u vs)"

definition User_save :: "db \<Rightarrow> user \<Rightarrow> db" where
  "User_save d u = d\<lparr>users := replace_user u (users d)\<rparr>"

text \<open>\<^verbatim>\<open>User.findOne({$or: [{username}, {email}]})\<close>.\<close>

definition User_findOne :: "db \<Rightarrow> string \<Rightarrow> string \<Rightarrow> user option" where
  "User_findOne d username' email' =
     find (\<lambda>u. username u = username' \<or> email u = email') (users d)"

subsection \<open>Token issue and rotation\<close>

text \<open>
  \<^verbatim>\<open>generateAccessAndRefereshTokens\<close>. The methods \<^verbatim>\<open>user.generateAccessToken()\<close> and
  \<^verbatim>\<open>user.generateRefreshToken()\<close> of the user model are arguments. The result is the
  object \<^verbatim>\<open>{accessToken, refreshToken}\<close>, given by its properties. A missing user makes
  the method call throw inside the \<^verbatim>\<open>try\<close>, which the \<^verbatim>\<open>catch\<close> turns into status 500.
\<close>

type_synonym js_object = "(string \<times> string) list"

definition generateAccessAndRefereshTokens ::
  "(user \<Rightarrow> string) \<Rightarrow> (user \<Rightarrow> string) \<Rightarrow> db \<Rightarrow> objectId \<Rightarrow> js_object outcome" where
  "generateAccessAndRefereshTokens generateAccessToken generateRefreshToken d userId =
     (case User_findById d (Some userId) of
        None \<Rightarrow>
          (Inl (ApiError 500
             ''Something went wrong while generating referesh and access token''), d)
      | Some user \<Rightarrow>
          let accessToken = generateAccessToken user;
              refreshToken' = generateRefreshToken user;
              d' = User_save d (user\<lparr>refreshToken := Some refreshToken'\<rparr>)
          in (Inr [(''accessToken'', accessToken), (''refreshToken'', refreshToken')], d'))"

text \<open>The payload \<^verbatim>\<open>{accessToken, refreshToken: newRefreshToken}\<close> of the rotation.\<close>

record token_pair =
  pair_accessToken :: "string option"
  pair_refreshToken :: "string option"

text \<open>\<^verbatim>\<open>a || b\<close> on possibly missing strings.\<close>

definition js_or :: "string option \<Rightarrow> string option \<Rightarrow> string option" where
  "js_or a b = (if truthy a then a else b)"

text \<open>
  The body of the \<^verbatim>\<open>try\<close> of \<^verbatim>\<open>refreshAccessToken\<close>. The library call
  \<^verbatim>\<open>jwt.verify(token, secret)\<close> is the argument \<open>verify\<close>: it throws, or returns the
  decoded claims, of which the handler reads \<^verbatim>\<open>_id\<close>. The destructuring
  \<^verbatim>\<open>const {accessToken, newRefreshToken} = ...\<close> reads the properties of these two names.
\<close>

definition refreshAccessToken_try ::
  "(string \<Rightarrow> error + objectId option) \<Rightarrow> (user \<Rightarrow> string) \<Rightarrow> (user \<Rightarrow> string)
     \<Rightarrow> db \<Rightarrow> string \<Rightarrow> token_pair response outcome" where
  "refreshAccessToken_try verify generateAccessToken generateRefreshToken d
      incomingRefreshToken =
     (case verify incomingRefreshToken of
        Inl e \<Rightarrow> (Inl e, d)
      | Inr decodedToken_id \<Rightarrow>
          (case User_findById d decodedToken_id of
             None \<Rightarrow> (Inl (ApiError 401 ''Invalid refresh token''), d)
           | Some user \<Rightarrow>
               if Some incomingRefreshToken \<noteq> refreshToken user
               then (Inl (ApiError 401 ''Refresh token is expired or used''), d)
               else
                 (case generateAccessAndRefereshTokens generateAccessToken
                         generateRefreshToken d (user_id user) of
                    (Inl e, d') \<Rightarrow> (Inl e, d')
                  | (Inr tokens, d') \<Rightarrow>
                      let accessToken = map_of tokens ''accessToken'';
                          newRefreshToken = map_of tokens ''newRefreshToken''
                      in (Inr \<lparr>status = 200,
                                cookies = [(''accessToken'', accessToken),
                                           (''refreshToken'', newRefreshToken)],
                                body = mkApiResponse 200
                                  \<lparr>pair_accessToken = accessToken,
                                   pair_refreshToken = newRefreshToken\<rparr>
                                  ''Access token refreshed''\<rparr>, d'))))"

text \<open>
  \<^verbatim>\<open>refreshAccessToken\<close>: the token comes from the cookie or else from the body; whatever
  the \<^verbatim>\<open>try\<close> throws is thrown again as
  \<^verbatim>\<open>ApiError(401, error?.message || "Invalid refresh token")\<close>.
\<close>

definition refreshAccessToken ::
  "(string \<Rightarrow> error + objectId option) \<Rightarrow> (user \<Rightarrow> string) \<Rightarrow> (user \<Rightarrow> string)
     \<Rightarrow> db \<Rightarrow> string option \<Rightarrow> string option \<Rightarrow> token_pair response outcome" where
  "refreshAccessToken verify generateAccessToken generateRefreshToken d
      cookie_refreshToken body_refreshToken =
     (let incomingRefreshToken = js_or cookie_refreshToken body_refreshToken
      in if \<not> truthy incomingRefreshToken
         then (Inl (ApiError 401 ''unauthorized request''), d)
         else
           (case refreshAccessToken_try verify generateAccessToken generateRefreshToken d
                   (the incomingRefreshToken) of
              (Inl e, d') \<Rightarrow>
                (Inl (ApiError 401
                   (if error_message e \<noteq> [] then error_message e
                    else ''Invalid refresh token'')), d')
            | (Inr r, d') \<Rightarrow> (Inr r, d')))"

subsection \<open>Registration\<close>

text \<open>
  The request of \<^verbatim>\<open>registerUser\<close>: the four text fields of the body, and \<^verbatim>\<open>req.files\<close>,
  which is \<^verbatim>\<open>undefined\<close> or an object whose properties \<^verbatim>\<open>avatar\<close> and \<^verbatim>\<open>coverImage\<close>
  are each missing or an array of uploaded files.
\<close>

record register_body =
  body_fullName :: string
  body_email :: string
  body_username :: string
  body_password :: string

record uploaded_file =
  path :: string

record req_files =
  files_avatar :: "uploaded_file list option"
  files_coverImage :: "uploaded_file list option"

text \<open>The media host's answer to an upload, of which the handler reads \<^verbatim>\<open>url\<close>.\<close>

record upload =
  url :: string

text \<open>
  \<^verbatim>\<open>req.files?.avatar[0]?.path\<close>: a missing \<^verbatim>\<open>req.files\<close> short-circuits the chain to
  \<^verbatim>\<open>undefined\<close>; on a present \<^verbatim>\<open>req.files\<close> the index \<^verbatim>\<open>[0]\<close> is applied to
  \<^verbatim>\<open>req.files.avatar\<close> with no guard, and throws when that property is missing.
\<close>

definition avatarLocalPath :: "req_files option \<Rightarrow> error + string option" where
  "avatarLocalPath files =
     (case files of
        None \<Rightarrow> Inr None
      | Some fs \<Rightarrow>
          (case files_avatar fs of
             None \<Rightarrow> Inl (TypeError ''Cannot read properties of undefined (reading 0)'')
           | Some [] \<Rightarrow> Inr None
           | Some (f # _) \<Rightarrow> Inr (Some (path f))))"

text \<open>
  \<^verbatim>\<open>if (req.files && Array.isArray(req.files.coverImage) && req.files.coverImage.length > 0)\<close>
  guards the read of the cover image's path.
\<close>

definition coverImageLocalPath :: "req_files option \<Rightarrow> string option" where
  "coverImageLocalPath files =
     (case files of
        None \<Rightarrow> None
      | Some fs \<Rightarrow>
          (case files_coverImage fs of
             None \<Rightarrow> None
           | Some [] \<Rightarrow> None
           | Some (f # _) \<Rightarrow> Some (path f)))"

text \<open>\<^verbatim>\<open>String.prototype.toLowerCase\<close> on text in the ASCII range.\<close>

definition toLowerCase :: "string \<Rightarrow> string" where
  "toLowerCase s =
     map (\<lambda>c. let n = (of_char c :: nat)
               in if 65 \<le> n \<and> n \<le> 90 then char_of (n + 32) else c) s"

text \<open>\<^verbatim>\<open>User.create\<close>: the store gives the new document the id \<open>newId\<close>.\<close>

definition User_create ::
  "objectId \<Rightarrow> db \<Rightarrow> string \<Rightarrow> string \<Rightarrow> string \<Rightarrow> string \<Rightarrow> string \<Rightarrow> string
     \<Rightarrow> user \<times> db" where
  "User_create newId d fullName' avatar' coverImage' email' password' username' =
     (let u = \<lparr>user_id = newId, username = username', email = email',
                fullName = fullName', avatar = avatar', coverImage = coverImage',
                watchHistory = [], password = password', refreshToken = None\<rparr>
      in (u, d\<lparr>users := users d @ [u]\<rparr>))"

text \<open>A user document after \<^verbatim>\<open>.select("-password -refreshToken")\<close>.\<close>

record public_user =
  public_id :: objectId
  public_username :: string
  public_email :: string
  public_fullName :: string
  public_avatar :: string
  public_coverImage :: string
  public_watchHistory :: "objectId list"

definition select_public :: "user \<Rightarrow> public_user" where
  "select_public u =
     \<lparr>public_id = user_id u, public_username = username u, public_email = email u,
      public_fullName = fullName u, public_avatar = avatar u,
      public_coverImage = coverImage u, public_watchHistory = watchHistory u\<rparr>"

text \<open>
  \<^verbatim>\<open>registerUser\<close>. The upload utility \<^verbatim>\<open>uploadOnCloudinary\<close> is an argument: it takes a
  possibly missing local path and returns the host's answer or null.
\<close>

definition registerUser ::
  "(string option \<Rightarrow> upload option) \<Rightarrow> objectId \<Rightarrow> db \<Rightarrow> register_body
     \<Rightarrow> req_files option \<Rightarrow> public_user response outcome" where
  "registerUser uploadOnCloudinary newId d req_body files =
     (if list_ex (\<lambda>field. trim field = [])
           [body_fullName req_body, body_email req_body, body_username req_body,
            body_password req_body]
      then (Inl (ApiError 400 ''All fields are required''), d)
      else case User_findOne d (body_username req_body) (body_email req_body) of
        Some existedUser \<Rightarrow>
          (Inl (ApiError 409 ''User with email or username already exists''), d)
      | None \<Rightarrow>
          (case avatarLocalPath files of
             Inl e \<Rightarrow> (Inl e, d)
           | Inr avatarLocalPath' \<Rightarrow>
               if \<not> truthy avatarLocalPath'
               then (Inl (ApiError 400 ''Avatar file is required''), d)
               else
                 let avatar' = uploadOnCloudinary avatarLocalPath';
                     coverImage' = uploadOnCloudinary (coverImageLocalPath files)
                 in (case avatar' of
                       None \<Rightarrow> (Inl (ApiError 400 ''Avatar file is required''), d)
                     | Some a \<Rightarrow>
                         let (user, d') =
                               User_create newId d (body_fullName req_body) (url a)
                                 (case coverImage' of None \<Rightarrow> [] | Some c \<Rightarrow> url c)
                                 (body_email req_body) (body_password req_body)
                                 (toLowerCase (body_username req_body))
                         in (case map_option select_public
                                    (User_findById d' (Some (user_id user))) of
                               None \<Rightarrow>
                                 (Inl (ApiError 500
                                    ''Something went wrong while registering the user''), d')
                             | Some createdUser \<Rightarrow>
                                 (Inr \<lparr>status = 201, cookies = [],
                                       body = mkApiResponse 200 createdUser
                                                ''User registered Successfully''\<rparr>, d')))))"

subsection \<open>Channel profile and watch history\<close>

record channel_view =
  channel_id :: objectId
  channel_fullName :: string
  channel_username :: string
  subscribersCount :: nat
  channelsSubscribedToCount :: nat
  isSubscribed :: bool
  channel_avatar :: string
  channel_coverImage :: string
  channel_email :: string

text \<open>
  The stages of the channel pipeline after \<^verbatim>\<open>$match\<close>: two lookups into the
  subscriptions (by \<^verbatim>\<open>channel\<close> and by \<^verbatim>\<open>subscriber\<close>), the derived fields, the projection.
\<close>

definition compose_channel :: "db \<Rightarrow> objectId \<Rightarrow> user \<Rightarrow> channel_view" where
  "compose_channel d viewer u =
     (let subscribers = filter (\<lambda>e. channel e = user_id u) (subscriptions d);
          subscribedTo = filter (\<lambda>e. subscriber e = user_id u) (subscriptions d)
      in \<lparr>channel_id = user_id u,
          channel_fullName = fullName u,
          channel_username = username u,
          subscribersCount = length subscribers,
          channelsSubscribedToCount = length subscribedTo,
          isSubscribed = (if viewer \<in> set (map subscriber subscribers) then True else False),
          channel_avatar = avatar u,
          channel_coverImage = coverImage u,
          channel_email = email u\<rparr>)"

definition getUserChannelProfile ::
  "db \<Rightarrow> objectId \<Rightarrow> string \<Rightarrow> channel_view response outcome" where
  "getUserChannelProfile d viewer username' =
     (if trim username' = [] then (Inl (ApiError 400 ''username is missing''), d)
      else
        let channel' =
              map (compose_channel d viewer)
                (filter (\<lambda>u. username u = toLowerCase username') (users d))
        in (case channel' of
              [] \<Rightarrow> (Inl (ApiError 404 ''channel does not exists''), d)
            | c # _ \<Rightarrow>
                (Inr \<lparr>status = 200, cookies = [],
                      body = mkApiResponse 200 c ''User channel fetched successfully''\<rparr>,
                 d)))"

text \<open>
  The watch-history pipeline: the videos whose id is in the user's \<^verbatim>\<open>watchHistory\<close> array,
  each through the nested pipeline that joins its owner (projected to
  \<^verbatim>\<open>fullName\<close>, \<^verbatim>\<open>username\<close>, \<^verbatim>\<open>avatar\<close>) and takes \<^verbatim>\<open>$first\<close>.
\<close>

record video_view =
  view_id :: objectId
  view_owner :: "profile option"
  view_metadata :: string

definition compose_video :: "db \<Rightarrow> video \<Rightarrow> video_view" where
  "compose_video d v =
     \<lparr>view_id = video_id v, view_owner = first (lookup_users d (owner v)),
      view_metadata = metadata v\<rparr>"

definition lookup_watchHistory :: "db \<Rightarrow> user \<Rightarrow> video_view list" where
  "lookup_watchHistory d u =
     map (compose_video d) (filter (\<lambda>v. video_id v \<in> set (watchHistory u)) (videos d))"

text \<open>
  \<^verbatim>\<open>getWatchHistory\<close> sends \<^verbatim>\<open>user[0].watchHistory\<close>; on an empty match the read of
  \<^verbatim>\<open>watchHistory\<close> throws.
\<close>

definition getWatchHistory :: "db \<Rightarrow> objectId \<Rightarrow> (video_view list) response outcome" where
  "getWatchHistory d viewer =
     (let user = map (\<lambda>u. (u, lookup_watchHistory d u))
                   (filter (\<lambda>u. user_id u = viewer) (users d))
      in (case user of
            [] \<Rightarrow>
              (Inl (TypeError ''Cannot read properties of undefined (reading watchHistory)''),
               d)
          | u0 # _ \<Rightarrow>
              (Inr \<lparr>status = 200, cookies = [],
                    body = mkApiResponse 200 (snd u0)
                             ''Watch history fetched successfully''\<rparr>, d)))"

section \<open>Predicates used in the statements\<close>

text \<open>The edge from a subscriber to a channel exists in the store.\<close>

definition edge_exists :: "db \<Rightarrow> objectId \<Rightarrow> objectId \<Rightarrow> bool" where
  "edge_exists d s c = list_ex (\<lambda>e. subscriber e = s \<and> channel e = c) (subscriptions d)"

text \<open>
  Two user documents agree on every field other than \<^verbatim>\<open>password\<close>, \<^verbatim>\<open>refreshToken\<close>
  and \<^verbatim>\<open>email\<close>.
\<close>

definition same_public_fields :: "user \<Rightarrow> user \<Rightarrow> bool" where
  "same_public_fields u u' =
     (user_id u' = user_id u \<and> username u' = username u \<and> fullName u' = fullName u
      \<and> avatar u' = avatar u \<and> coverImage u' = coverImage u
      \<and> watchHistory u' = watchHistory u)"

section \<open>A concrete store and concrete collaborators\<close>

text \<open>
  An id predicate that accepts the 24 hexadecimal digits of an object id, standing for
  \<^verbatim>\<open>isValidObjectId\<close> where a statement is evaluated.
\<close>

definition hex_digit :: "char \<Rightarrow> bool" where
  "hex_digit c =
     (let n = (of_char c :: nat)
      in (48 \<le> n \<and> n \<le> 57) \<or> (65 \<le> n \<and> n \<le> 70) \<or> (97 \<le> n \<and> n \<le> 102))"

definition hex24 :: "string \<Rightarrow> bool" where
  "hex24 s = (length s = 24 \<and> list_all hex_digit s)"

text \<open>
  A cast that accepts the same strings and yields the id in lower case, as an object id
  prints.
\<close>

definition hex24_cast :: "string \<Rightarrow> objectId option" where
  "hex24_cast s = (if hex24 s then Some (toLowerCase s) else None)"

definition alice_id :: objectId where
  "alice_id = ''65f0c0ffee00000000000a11''"

definition bob_id :: objectId where
  "bob_id = ''65f0c0ffee00000000000b0b''"

definition ada_id :: objectId where
  "ada_id = ''65f0c0ffee00000000000ada''"

definition tweet1_id :: objectId where
  "tweet1_id = ''65f0c0ffee00000000007ee1''"

definition like1_id :: objectId where
  "like1_id = ''65f0c0ffee00000000001ce1''"

definition sub1_id :: objectId where
  "sub1_id = ''65f0c0ffee00000000005b01''"

definition sub2_id :: objectId where
  "sub2_id = ''65f0c0ffee00000000005b02''"

definition sub3_id :: objectId where
  "sub3_id = ''65f0c0ffee00000000005b03''"

definition video1_id :: objectId where
  "video1_id = ''65f0c0ffee0000000000f1d1''"

definition alice :: user where
  "alice = \<lparr>user_id = alice_id, username = ''alice'', email = ''alice@x.com'',
     fullName = ''Alice A'', avatar = ''http://img/alice.png'', coverImage = [],
     watchHistory = [], password = ''hash-a'', refreshToken = Some ''refresh-1''\<rparr>"

definition bob :: user where
  "bob = \<lparr>user_id = bob_id, username = ''bob'', email = ''bob@x.com'',
     fullName = ''Bob B'', avatar = ''http://img/bob.png'', coverImage = [],
     watchHistory = [video1_id], password = ''hash-b'', refreshToken = None\<rparr>"

definition tweet1 :: tweet where
  "tweet1 = \<lparr>tweet_id = tweet1_id, content = ''hello'', tweetOwner = alice_id, createdAt = 1\<rparr>"

definition like1 :: like where
  "like1 = \<lparr>like_id = like1_id, like_tweet = Some tweet1_id, likedBy = bob_id\<rparr>"

definition sub1 :: subscription where
  "sub1 = \<lparr>subscription_id = sub1_id, subscriber = bob_id, channel = alice_id\<rparr>"

definition video1 :: video where
  "video1 = \<lparr>video_id = video1_id, owner = alice_id, metadata = ''intro''\<rparr>"

text \<open>
  Alice owns one tweet and one video; Bob likes the tweet, subscribes to Alice and has
  watched the video.
\<close>

definition example_db :: db where
  "example_db = \<lparr>users = [alice, bob], tweets = [tweet1], likes = [like1],
     subscriptions = [sub1], videos = [video1]\<rparr>"

text \<open>The same store with a second edge from Bob to Alice, under an id of its own.\<close>

definition duplicate_db :: db where
  "duplicate_db = example_db\<lparr>subscriptions :=
     [sub1, \<lparr>subscription_id = sub2_id, subscriber = bob_id, channel = alice_id\<rparr>]\<rparr>"

text \<open>The users of the store with other passwords, refresh tokens and one other email.\<close>

definition rotated_users :: "user list" where
  "rotated_users =
     [alice\<lparr>password := ''hash-a2'', refreshToken := None, email := ''alice@y.org''\<rparr>,
      bob\<lparr>password := ''hash-b2'', refreshToken := Some ''refresh-9''\<rparr>]"

text \<open>A verifier that accepts two refresh tokens of Alice and rejects every other string.\<close>

definition example_verify :: "string \<Rightarrow> error + objectId option" where
  "example_verify t =
     (if t = ''refresh-1'' \<or> t = ''refresh-2'' then Inr (Some alice_id)
      else Inl (JsonWebTokenError ''jwt malformed''))"

text \<open>The store after Alice's refresh token has been rotated once.\<close>

definition rotated_db :: db where
  "rotated_db = example_db\<lparr>users := [alice\<lparr>refreshToken := Some ''refresh-2''\<rparr>, bob]\<rparr>"

text \<open>A media host that stores every file it is given, and a registration body.\<close>

definition example_upload :: "string option \<Rightarrow> upload option" where
  "example_upload p = map_option (\<lambda>x. \<lparr>url = ''http://media.example'' @ x\<rparr>) p"

definition ada_body :: register_body where
  "ada_body = \<lparr>body_fullName = ''Ada Lovelace'', body_email = ''ada@x.com'',
     body_username = ''ada'', body_password = ''secret''\<rparr>"

lemmas example_defs =
  example_db_def alice_def bob_def tweet1_def like1_def sub1_def video1_def
  alice_id_def bob_id_def tweet1_id_def like1_id_def sub1_id_def sub2_id_def sub3_id_def
  video1_id_def hex24_def hex_digit_def

section \<open>Token rotation\<close>

text \<open>
  Claim C1. A rotation request presents a refresh token \<open>t\<close> (from the cookie or else from
  the body). When \<open>t\<close> verifies, the user it names is stored, and \<open>t\<close> is not the refresh
  token persisted on that user (whatever that value is, and whatever it was before), the
  handler fails with status 401, sends no response and so no token pair, and leaves the
  store as it was.
\<close>

theorem refreshAccessToken_mismatch_unauthorized:
  assumes "js_or cookie_token body_token = Some t" and "t \<noteq> []"
    and "verify t = Inr i" and "User_findById d i = Some u"
    and "refreshToken u \<noteq> Some t"
  shows "refreshAccessToken verify generateAccessToken generateRefreshToken d
           cookie_token body_token =
         (Inl (ApiError 401 ''Refresh token is expired or used''), d)"
  using assms
  by (auto simp add: refreshAccessToken_def refreshAccessToken_try_def truthy_def)

text \<open>
  The instance: Alice's persisted token \<open>refresh-1\<close> is rotated, which persists
  \<open>refresh-2\<close>; presenting \<open>refresh-1\<close> once more, which still verifies, is rejected.
\<close>

theorem refreshAccessToken_mismatch_unauthorized_witness:
  "js_or (Some ''refresh-1'') None = Some ''refresh-1''
   \<and> example_verify ''refresh-1'' = Inr (Some alice_id)
   \<and> User_findById example_db (Some alice_id) = Some alice
   \<and> refreshToken alice = Some ''refresh-1''
   \<and> snd (refreshAccessToken example_verify (\<lambda>u. ''access-2'') (\<lambda>u. ''refresh-2'') example_db
            (Some ''refresh-1'') None) = rotated_db
   \<and> refreshAccessToken example_verify (\<lambda>u. ''access-3'') (\<lambda>u. ''refresh-3'') rotated_db
        (Some ''refresh-1'') None =
      (Inl (ApiError 401 ''Refresh token is expired or used''), rotated_db)"
proof -
  have h1: "js_or (Some ''refresh-1'') None = Some ''refresh-1''"
    by (simp add: js_or_def truthy_def)
  have h2: "''refresh-1'' \<noteq> []"
    by simp
  have h3: "example_verify ''refresh-1'' = Inr (Some alice_id)"
    by (simp add: example_verify_def)
  have h4: "User_findById rotated_db (Some alice_id)
              = Some (alice\<lparr>refreshToken := Some ''refresh-2''\<rparr>)"
    by (simp add: User_findById_def rotated_db_def example_defs)
  have h5: "refreshToken (alice\<lparr>refreshToken := Some ''refresh-2''\<rparr>) \<noteq> Some ''refresh-1''"
    by simp
  have before: "User_findById example_db (Some alice_id) = Some alice
      \<and> refreshToken alice = Some ''refresh-1''"
    by (simp add: User_findById_def example_defs)
  have rotated: "snd (refreshAccessToken example_verify (\<lambda>u. ''access-2'') (\<lambda>u. ''refresh-2'')
            example_db (Some ''refresh-1'') None) = rotated_db"
    by (simp add: refreshAccessToken_def refreshAccessToken_try_def js_or_def truthy_def
        example_verify_def User_findById_def generateAccessAndRefereshTokens_def
        User_save_def mkApiResponse_def rotated_db_def Let_def example_defs)
  show ?thesis
    using h1 h3 before rotated
      refreshAccessToken_mismatch_unauthorized
        [where verify = example_verify, OF h1 h2 h3 h4 h5]
    by simp
qed

text \<open>
  Every successful rotation sends \<^verbatim>\<open>undefined\<close> where the new refresh token is expected:
  the object returned by \<^verbatim>\<open>generateAccessAndRefereshTokens\<close> has no property
  \<^verbatim>\<open>newRefreshToken\<close>.
\<close>

lemma refreshAccessToken_success_payload:
  assumes "refreshAccessToken verify generateAccessToken generateRefreshToken d
             cookie_token body_token = (Inr r, d')"
  shows "pair_refreshToken (data (body r)) = None
       \<and> map_of (cookies r) ''refreshToken'' = Some None"
  using assms
  by (auto simp add: refreshAccessToken_def refreshAccessToken_try_def Let_def
      generateAccessAndRefereshTokens_def mkApiResponse_def
      split: if_splits sum.splits option.splits prod.splits)

text \<open>
  Claim C2. A successful rotation issues a fresh pair, persists the new refresh token, and
  sends the new refresh token with the new access token in the payload and in the cookie.
  Evaluated on the rotation of Alice's token \<open>refresh-1\<close>: the new refresh token
  \<open>refresh-2\<close> is persisted on Alice's record, and the new access token is sent, but the
  payload's \<^verbatim>\<open>refreshToken\<close> and the cookie \<^verbatim>\<open>refreshToken\<close> are \<^verbatim>\<open>undefined\<close>.
\<close>

theorem refreshAccessToken_payload_lacks_refreshToken:
  "refreshAccessToken example_verify (\<lambda>u. ''access-2'') (\<lambda>u. ''refresh-2'') example_db
     (Some ''refresh-1'') None =
   (Inr \<lparr>status = 200,
         cookies = [(''accessToken'', Some ''access-2''), (''refreshToken'', None)],
         body = \<lparr>statusCode = 200,
                 data = \<lparr>pair_accessToken = Some ''access-2'', pair_refreshToken = None\<rparr>,
                 message = ''Access token refreshed'', success = True\<rparr>\<rparr>,
    rotated_db)
   \<and> map_option refreshToken (User_findById rotated_db (Some alice_id))
       = Some (Some ''refresh-2'')"
  by (simp add: refreshAccessToken_def refreshAccessToken_try_def js_or_def truthy_def
      example_verify_def User_findById_def generateAccessAndRefereshTokens_def User_save_def
      mkApiResponse_def rotated_db_def Let_def example_defs)

section \<open>Tweet update and delete\<close>

text \<open>
  An attempt by a viewer who is not the owner leaves the store as it was, in both
  handlers; the delete fails with status 403, the update with status 404.
\<close>

lemma deleteTweet_non_owner:
  assumes "isValidObjectId tweetId" and "Tweet_findById d tweetId = Some t"
    and "tweetOwner t \<noteq> viewer"
  shows "deleteTweet isValidObjectId d viewer tweetId =
    (Inl (ApiError 403 ''You are not authorized to delete this tweet..''), d)"
  using assms by (simp add: deleteTweet_def)

lemma updateTweet_non_owner:
  assumes "isValidObjectId tweetId" and "Tweet_findById d tweetId = Some t"
    and "tweetOwner t \<noteq> viewer"
  shows "updateTweet isValidObjectId d viewer tweetId c =
    (Inl (ApiError 404 ''You are not authorized to update this tweet..''), d)"
  using assms by (simp add: updateTweet_def)

text \<open>
  Claim C3. An update or delete attempt by a viewer other than the tweet's owner fails
  with Forbidden and leaves the stored tweet unmodified. Evaluated on Bob's attempt to
  update Alice's tweet: the store is unmodified, and the error carries status 404, not 403.
\<close>

theorem updateTweet_non_owner_status_404:
  "hex24 tweet1_id \<and> Tweet_findById example_db tweet1_id = Some tweet1
   \<and> tweetOwner tweet1 \<noteq> bob_id
   \<and> updateTweet hex24 example_db bob_id tweet1_id (Some ''edited'') =
      (Inl (ApiError 404 ''You are not authorized to update this tweet..''), example_db)"
  by (simp add: updateTweet_def Tweet_findById_def example_defs)

lemma set_content_same:
  "find (\<lambda>t. tweet_id t = i) ts = Some t \<Longrightarrow> set_content i (content t) ts = ts"
  by (induction ts) (auto split: if_splits)

text \<open>
  Claim C6, as amended. The owner updates a tweet with a content whose trimmed form is
  empty. The store, and with it the stored content, is unchanged. When the content is
  not the empty string (it is whitespace only), the handler reports success with status
  200; when it is the empty string, the guard on a missing content rejects the request.
\<close>

theorem updateTweet_blank_content:
  assumes "isValidObjectId tweetId" and "Tweet_findById d tweetId = Some t"
    and "tweetOwner t = viewer" and "trim c = []"
  shows "snd (updateTweet isValidObjectId d viewer tweetId (Some c)) = d
    \<and> (c \<noteq> [] \<longrightarrow>
         (\<exists>r. fst (updateTweet isValidObjectId d viewer tweetId (Some c)) = Inr r
            \<and> status r = 200 \<and> success (body r)))
    \<and> (c = [] \<longrightarrow>
         (\<exists>e. fst (updateTweet isValidObjectId d viewer tweetId (Some c)) = Inl e))"
proof -
  have same: "set_content tweetId (content t) (tweets d) = tweets d"
    using assms(2) by (simp add: Tweet_findById_def set_content_same)
  show ?thesis
    using assms same
    by (simp add: updateTweet_def truthy_def Tweet_findByIdAndUpdate_def Tweet_findById_def
        mkApiResponse_def)
qed

text \<open>The instance: Alice updates her tweet with three spaces.\<close>

theorem updateTweet_blank_content_witness:
  "hex24 tweet1_id \<and> Tweet_findById example_db tweet1_id = Some tweet1
   \<and> tweetOwner tweet1 = alice_id \<and> trim ''   '' = []
   \<and> snd (updateTweet hex24 example_db alice_id tweet1_id (Some ''   '')) = example_db
   \<and> (\<exists>r. fst (updateTweet hex24 example_db alice_id tweet1_id (Some ''   '')) = Inr r
          \<and> status r = 200 \<and> success (body r))"
proof -
  have h1: "hex24 tweet1_id"
    by (simp add: example_defs)
  have h2: "Tweet_findById example_db tweet1_id = Some tweet1"
    by (simp add: Tweet_findById_def example_defs)
  have h3: "tweetOwner tweet1 = alice_id"
    by (simp add: tweet1_def)
  have h4: "trim ''   '' = []"
    by (simp add: trim_def is_space_def)
  show ?thesis
    using h1 h2 h3 h4
      updateTweet_blank_content
        [where isValidObjectId = hex24 and tweetId = tweet1_id, OF h1 h2 h3 h4]
    by simp
qed

text \<open>
  Claim C6 as first stated fails on the empty string: its trimmed form is empty, Alice is
  the owner, and the handler does not report success.
\<close>

theorem updateTweet_empty_content_rejected:
  "hex24 tweet1_id \<and> Tweet_findById example_db tweet1_id = Some tweet1
   \<and> tweetOwner tweet1 = alice_id \<and> trim [] = []
   \<and> fst (updateTweet hex24 example_db alice_id tweet1_id (Some [])) =
       Inl (ApiError 404 ''Tweet content required..'')"
  by (simp add: updateTweet_def Tweet_findById_def truthy_def trim_def example_defs)

section \<open>Subscriptions\<close>

text \<open>
  Claim C10. The guard of \<^verbatim>\<open>toggleSubscription\<close> tests the function \<^verbatim>\<open>isValidObjectId\<close>
  itself. For every predicate, every cast, every store and every channel id string,
  malformed ones included, the handler never fails with status 400, and its outcome is
  that of the find, create and delete path alone: the query is made with the string as it
  came; on a string that does not cast the query throws its \<^verbatim>\<open>CastError\<close>; an edge that is
  found is deleted by its id; and otherwise the edge is created.
\<close>

theorem toggleSubscription_guard_unreachable:
  "(\<forall>m. fst (toggleSubscription isValidObjectId castObjectId newId d viewer channelId)
          \<noteq> Inl (ApiError 400 m))
   \<and> toggleSubscription isValidObjectId castObjectId newId d viewer channelId =
      (case castObjectId channelId of
         None \<Rightarrow> (Inl (CastError ''channel'' channelId), d)
       | Some c \<Rightarrow>
           (case find (\<lambda>e. subscriber e = viewer \<and> channel e = c) (subscriptions d) of
              Some e \<Rightarrow>
                (Inr \<lparr>status = 200, cookies = [],
                      body = mkApiResponse 200 (Text ''Unscribed from channerl'')
                               ''Success''\<rparr>,
                 Subscription_findByIdAndDelete d (subscription_id e))
            | None \<Rightarrow>
                (Inr \<lparr>status = 200, cookies = [],
                      body = mkApiResponse 200
                        (Doc \<lparr>subscription_id = newId, subscriber = viewer, channel = c\<rparr>)
                        ''Successfully subscribed to channel''\<rparr>,
                 d\<lparr>subscriptions := subscriptions d @
                      [\<lparr>subscription_id = newId, subscriber = viewer, channel = c\<rparr>]\<rparr>)))"
  by (simp add: toggleSubscription_def truthy_function_def Subscription_findOne_def
      Subscription_create_def Let_def split: option.split)

text \<open>
  The instances: a string that the predicate rejects and the cast refuses reaches the
  query, which throws; a well-formed id reaches the delete.
\<close>

theorem toggleSubscription_guard_unreachable_witness:
  "\<not> hex24 ''not-an-id''
   \<and> toggleSubscription hex24 hex24_cast sub2_id example_db bob_id ''not-an-id'' =
       (Inl (CastError ''channel'' ''not-an-id''), example_db)
   \<and> hex24 alice_id
   \<and> snd (toggleSubscription hex24 hex24_cast sub2_id example_db bob_id alice_id) =
       example_db\<lparr>subscriptions := []\<rparr>"
proof -
  have bad: "\<not> hex24 ''not-an-id''"
    by (simp add: hex24_def)
  then have no_cast: "hex24_cast ''not-an-id'' = None"
    by (simp add: hex24_cast_def)
  have good: "hex24 alice_id"
    by (simp add: example_defs)
  have "toLowerCase alice_id = alice_id"
    unfolding alice_id_def by code_simp
  with good have cast: "hex24_cast alice_id = Some alice_id"
    by (simp add: hex24_cast_def)
  have found: "find (\<lambda>e. subscriber e = bob_id \<and> channel e = alice_id)
                 (subscriptions example_db) = Some sub1"
    by (simp add: example_defs)
  have deleted: "Subscription_findByIdAndDelete example_db (subscription_id sub1)
                   = example_db\<lparr>subscriptions := []\<rparr>"
    by (simp add: Subscription_findByIdAndDelete_def example_defs)
  show ?thesis
    using bad good no_cast cast found deleted
      toggleSubscription_guard_unreachable
        [of hex24 hex24_cast sub2_id example_db bob_id "''not-an-id''"]
      toggleSubscription_guard_unreachable
        [of hex24 hex24_cast sub2_id example_db bob_id alice_id]
    by simp
qed

subsection \<open>Two toggles in a row\<close>

lemma find_None_list_ex: "(find P es = None) = (\<not> list_ex P es)"
  by (induction es) auto

lemma edge_exists_find:
  "edge_exists d s c =
     (find (\<lambda>e. subscriber e = s \<and> channel e = c) (subscriptions d) \<noteq> None)"
  by (simp add: edge_exists_def find_None_list_ex)

lemma find_append_new:
  "find P es = None \<Longrightarrow> P e \<Longrightarrow> find P (es @ [e]) = Some e"
  by (induction es) (auto split: if_splits)

text \<open>Deleting by a fresh id removes the document that was appended under it.\<close>

lemma remove_appended:
  "i \<notin> set (map subscription_id es) \<Longrightarrow> subscription_id e = i \<Longrightarrow>
   remove_subscription i (es @ [e]) = es"
  by (induction es) auto

text \<open>
  When ids are unique and at most one document matches, deleting the match by its id
  leaves no match.
\<close>

lemma remove_only_match:
  "find P es = Some e \<Longrightarrow> distinct (map subscription_id es) \<Longrightarrow>
   length (filter P es) \<le> 1 \<Longrightarrow>
   \<not> list_ex P (remove_subscription (subscription_id e) es)"
proof (induction es)
  case Nil
  then show ?case by simp
next
  case (Cons x xs)
  show ?case
  proof (cases "P x")
    case True
    with Cons.prems have "e = x" and "filter P xs = []"
      by auto
    then show ?thesis
      by (simp add: list_ex_iff filter_empty_conv)
  next
    case False
    with Cons.prems have found: "find P xs = Some e"
      by simp
    then have "e \<in> set xs"
      by (auto simp: find_Some_iff in_set_conv_nth)
    with Cons.prems(2) have "subscription_id x \<noteq> subscription_id e"
      by auto
    with Cons False found show ?thesis
      by simp
  qed
qed

text \<open>The store after one toggle, by what the query finds.\<close>

lemma toggleSubscription_absent:
  assumes "castObjectId channelId = Some c"
    and "find (\<lambda>e. subscriber e = viewer \<and> channel e = c) (subscriptions d) = None"
  shows "snd (toggleSubscription v castObjectId newId d viewer channelId) =
           d\<lparr>subscriptions := subscriptions d @
                [\<lparr>subscription_id = newId, subscriber = viewer, channel = c\<rparr>]\<rparr>"
  using assms
  by (simp add: toggleSubscription_def truthy_function_def Subscription_findOne_def
      Subscription_create_def Let_def)

lemma toggleSubscription_present:
  assumes "castObjectId channelId = Some c"
    and "find (\<lambda>e. subscriber e = viewer \<and> channel e = c) (subscriptions d) = Some e"
  shows "snd (toggleSubscription v castObjectId newId d viewer channelId) =
           Subscription_findByIdAndDelete d (subscription_id e)"
  using assms
  by (simp add: toggleSubscription_def truthy_function_def Subscription_findOne_def)

text \<open>
  Claim C4, as amended. The channel is the identity \<open>c\<close> that the path parameter casts to.
  The store has unique document ids and holds at most one edge for the pair (viewer,
  channel); the id that the store gives a new document is fresh. Then the first toggle
  inverts the existence of the edge (from absent it creates the edge, from present it
  deletes it), and the second toggle restores the existence the store started with.
\<close>

theorem toggleSubscription_twice_restores:
  assumes cast: "castObjectId channelId = Some c"
    and ids: "distinct (map subscription_id (subscriptions d))"
    and one: "length (filter (\<lambda>e. subscriber e = viewer \<and> channel e = c)
                 (subscriptions d)) \<le> 1"
    and fresh: "newId1 \<notin> set (map subscription_id (subscriptions d))"
  shows "edge_exists (snd (toggleSubscription v1 castObjectId newId1 d viewer channelId))
           viewer c
           = (\<not> edge_exists d viewer c)
       \<and> edge_exists
           (snd (toggleSubscription v2 castObjectId newId2
                   (snd (toggleSubscription v1 castObjectId newId1 d viewer channelId))
                   viewer channelId))
           viewer c
           = edge_exists d viewer c"
proof (cases "find (\<lambda>e. subscriber e = viewer \<and> channel e = c) (subscriptions d)")
  case None
  let ?P = "\<lambda>e. subscriber e = viewer \<and> channel e = c"
  let ?e = "\<lparr>subscription_id = newId1, subscriber = viewer, channel = c\<rparr>"
  let ?d1 = "d\<lparr>subscriptions := subscriptions d @ [?e]\<rparr>"
  have absent: "\<not> edge_exists d viewer c"
    using None by (simp add: edge_exists_find)
  have d1: "snd (toggleSubscription v1 castObjectId newId1 d viewer channelId) = ?d1"
    using toggleSubscription_absent
            [where castObjectId = castObjectId and channelId = channelId, OF cast None] .
  have found: "find ?P (subscriptions ?d1) = Some ?e"
    using None by (simp add: find_append_new)
  have "remove_subscription newId1 (subscriptions d @ [?e]) = subscriptions d"
    using fresh by (simp add: remove_appended)
  then have d2: "snd (toggleSubscription v2 castObjectId newId2 ?d1 viewer channelId) = d"
    using toggleSubscription_present
            [where castObjectId = castObjectId and channelId = channelId, OF cast found]
    by (simp add: Subscription_findByIdAndDelete_def)
  have "edge_exists ?d1 viewer c"
    using found by (simp add: edge_exists_find)
  with absent d1 d2 show ?thesis
    by simp
next
  case (Some e)
  let ?P = "\<lambda>e. subscriber e = viewer \<and> channel e = c"
  let ?d1 = "Subscription_findByIdAndDelete d (subscription_id e)"
  have present: "edge_exists d viewer c"
    using Some by (simp add: edge_exists_find)
  have d1: "snd (toggleSubscription v1 castObjectId newId1 d viewer channelId) = ?d1"
    using toggleSubscription_present
            [where castObjectId = castObjectId and channelId = channelId, OF cast Some] .
  have gone: "\<not> edge_exists ?d1 viewer c"
    using Some ids one remove_only_match [of ?P "subscriptions d" e]
    by (simp add: edge_exists_def Subscription_findByIdAndDelete_def)
  then have none: "find ?P (subscriptions ?d1) = None"
    by (simp add: edge_exists_find)
  have "edge_exists (snd (toggleSubscription v2 castObjectId newId2 ?d1 viewer channelId))
          viewer c"
    using toggleSubscription_absent
            [where castObjectId = castObjectId and channelId = channelId, OF cast none]
    by (simp add: edge_exists_def)
  with present gone d1 show ?thesis
    by simp
qed

lemma hex24_cast_alice: "hex24_cast alice_id = Some alice_id"
proof -
  have "toLowerCase alice_id = alice_id"
    unfolding alice_id_def by code_simp
  moreover have "hex24 alice_id"
    by (simp add: example_defs)
  ultimately show ?thesis
    by (simp add: hex24_cast_def)
qed

text \<open>The instance: Bob, subscribed to Alice, toggles twice.\<close>

theorem toggleSubscription_twice_restores_witness:
  "hex24_cast alice_id = Some alice_id
   \<and> distinct (map subscription_id (subscriptions example_db))
   \<and> length (filter (\<lambda>e. subscriber e = bob_id \<and> channel e = alice_id)
                 (subscriptions example_db)) \<le> 1
   \<and> sub2_id \<notin> set (map subscription_id (subscriptions example_db))
   \<and> edge_exists example_db bob_id alice_id
   \<and> \<not> edge_exists
         (snd (toggleSubscription hex24 hex24_cast sub2_id example_db bob_id alice_id))
         bob_id alice_id
   \<and> edge_exists
        (snd (toggleSubscription hex24 hex24_cast sub3_id
                (snd (toggleSubscription hex24 hex24_cast sub2_id example_db bob_id alice_id))
                bob_id alice_id))
        bob_id alice_id"
proof -
  have h1: "distinct (map subscription_id (subscriptions example_db))"
    by (simp add: example_defs)
  have h2: "length (filter (\<lambda>e. subscriber e = bob_id \<and> channel e = alice_id)
                 (subscriptions example_db)) \<le> 1"
    by (simp add: example_defs)
  have h3: "sub2_id \<notin> set (map subscription_id (subscriptions example_db))"
    by (simp add: example_defs)
  have h4: "edge_exists example_db bob_id alice_id"
    by (simp add: example_defs edge_exists_def)
  show ?thesis
    using hex24_cast_alice h1 h2 h3 h4
      toggleSubscription_twice_restores
        [where castObjectId = hex24_cast and channelId = alice_id and ?v1.0 = hex24
           and ?v2.0 = hex24 and ?newId2.0 = sub3_id,
         OF hex24_cast_alice h1 h2 h3]
    by simp
qed

text \<open>
  Claim C4 as first stated, for every starting store, fails on a store that holds the
  edge from Bob to Alice twice (under two ids): each toggle deletes one of the two, so
  the edge exists before the two calls and not after them.
\<close>

theorem toggleSubscription_twice_duplicate_edges:
  "distinct (map subscription_id (subscriptions duplicate_db))
   \<and> edge_exists duplicate_db bob_id alice_id
   \<and> \<not> edge_exists
        (snd (toggleSubscription hex24 hex24_cast sub3_id
                (snd (toggleSubscription hex24 hex24_cast sub3_id duplicate_db
                        bob_id alice_id))
                bob_id alice_id))
        bob_id alice_id"
  by (simp add: duplicate_db_def example_defs edge_exists_def toggleSubscription_def
      truthy_function_def Subscription_findOne_def Subscription_findByIdAndDelete_def
      Subscription_create_def hex24_cast_alice [unfolded alice_id_def])

subsection \<open>The list of subscribed channels\<close>

text \<open>
  Every row of \<^verbatim>\<open>getSubscribedChannels\<close> is an edge of the viewer, and its joined profile
  is the one looked up under the viewer's own id.
\<close>

lemma getSubscribedChannels_rows:
  "getSubscribedChannels d viewer = (Inr r, d') \<Longrightarrow> row \<in> set (data (body r)) \<Longrightarrow>
     subscriber (row_subscription row) = viewer
     \<and> subscriberInfo row = first (lookup_users d viewer)"
  by (auto simp add: getSubscribedChannels_def Let_def mkApiResponse_def)

text \<open>
  Claim C9. The list of subscribed channels has one row per edge of the viewer, each
  enriched with the profile of the subscribed-to channel. Evaluated for Bob, whose one
  edge leads to Alice: the one row carries the edge, and joined to it Bob's own profile,
  not Alice's.
\<close>

theorem getSubscribedChannels_joins_subscriber:
  "fst (getSubscribedChannels example_db bob_id) =
     Inr \<lparr>status = 200, cookies = [],
          body = \<lparr>statusCode = 200,
                  data = [\<lparr>row_subscription = sub1,
                           subscriberInfo = Some (project_profile bob)\<rparr>],
                  message = ''Successfully fatched channel list'', success = True\<rparr>\<rparr>
   \<and> subscriber sub1 = bob_id \<and> channel sub1 = alice_id
   \<and> project_profile bob \<noteq> project_profile alice"
  by (simp add: getSubscribedChannels_def lookup_users_def first_def project_profile_def
      mkApiResponse_def Let_def example_defs)

section \<open>Composed views\<close>

lemma length_filter_card:
  "distinct xs \<Longrightarrow> length (filter P xs) = card {x \<in> set xs. P x}"
  by (metis distinct_card distinct_filter set_filter)

lemma distinct_of_ids: "distinct (map f xs) \<Longrightarrow> distinct xs"
  by (simp add: distinct_map)

lemma find_filter_hd: "filter P xs = u # rest \<Longrightarrow> find P xs = Some u"
  by (induction xs) (auto split: if_splits)

lemma compose_tweet_fields:
  assumes "distinct (map like_id (likes d))"
  shows "row_id (compose_tweet d viewer t) = tweet_id t"
    and "likeCount (compose_tweet d viewer t)
           = card {l \<in> set (likes d). like_tweet l = Some (tweet_id t)}"
    and "isLiked (compose_tweet d viewer t)
           = (\<exists>l \<in> set (likes d). like_tweet l = Some (tweet_id t) \<and> likedBy l = viewer)"
proof -
  show "row_id (compose_tweet d viewer t) = tweet_id t"
    by (simp add: compose_tweet_def Let_def)
  have "distinct (likes d)"
    using assms by (rule distinct_of_ids)
  then show "likeCount (compose_tweet d viewer t)
           = card {l \<in> set (likes d). like_tweet l = Some (tweet_id t)}"
    by (simp add: compose_tweet_def Let_def lookup_likes_def length_filter_card)
  show "isLiked (compose_tweet d viewer t)
           = (\<exists>l \<in> set (likes d). like_tweet l = Some (tweet_id t) \<and> likedBy l = viewer)"
    by (auto simp add: compose_tweet_def Let_def lookup_likes_def image_iff)
qed

lemma compose_channel_fields:
  assumes "distinct (map subscription_id (subscriptions d))"
  shows "channel_id (compose_channel d viewer u) = user_id u"
    and "subscribersCount (compose_channel d viewer u)
           = card {e \<in> set (subscriptions d). channel e = user_id u}"
    and "isSubscribed (compose_channel d viewer u)
           = (\<exists>e \<in> set (subscriptions d). channel e = user_id u \<and> subscriber e = viewer)"
proof -
  show "channel_id (compose_channel d viewer u) = user_id u"
    by (simp add: compose_channel_def Let_def)
  have "distinct (subscriptions d)"
    using assms by (rule distinct_of_ids)
  then show "subscribersCount (compose_channel d viewer u)
           = card {e \<in> set (subscriptions d). channel e = user_id u}"
    by (simp add: compose_channel_def Let_def length_filter_card)
  show "isSubscribed (compose_channel d viewer u)
           = (\<exists>e \<in> set (subscriptions d). channel e = user_id u \<and> subscriber e = viewer)"
    by (auto simp add: compose_channel_def Let_def image_iff)
qed

text \<open>A channel profile that is sent is the composed view of the first matching user.\<close>

lemma getUserChannelProfile_success:
  assumes "getUserChannelProfile d viewer name = (Inr r, d')"
  shows "\<exists>u. find (\<lambda>u. username u = toLowerCase name) (users d) = Some u
           \<and> data (body r) = compose_channel d viewer u"
proof -
  let ?us = "filter (\<lambda>u. username u = toLowerCase name) (users d)"
  from assms obtain u rest where us: "?us = u # rest"
    by (cases ?us) (auto simp add: getUserChannelProfile_def Let_def split: if_splits)
  then have "find (\<lambda>u. username u = toLowerCase name) (users d) = Some u"
    by (rule find_filter_hd)
  moreover have "data (body r) = compose_channel d viewer u"
    using assms us
    by (auto simp add: getUserChannelProfile_def Let_def mkApiResponse_def split: if_splits)
  ultimately show ?thesis
    by blast
qed

text \<open>
  Claim C5. Document ids are unique in the likes and in the subscriptions. Row by row of
  the tweet feed, \<^verbatim>\<open>likeCount\<close> is the number of like edges that target the row's tweet,
  and \<^verbatim>\<open>isLiked\<close> holds exactly when one of these edges has the viewer as its
  \<^verbatim>\<open>likedBy\<close>. In every channel profile that is sent, \<^verbatim>\<open>subscribersCount\<close> is the number
  of subscription edges whose channel is the profiled user, and \<^verbatim>\<open>isSubscribed\<close> holds
  exactly when one of these edges has the viewer as its subscriber.
\<close>

theorem composer_counts_and_flags:
  assumes "distinct (map like_id (likes d))"
    and "distinct (map subscription_id (subscriptions d))"
  shows "list_all2
           (\<lambda>t r. row_id r = tweet_id t
              \<and> likeCount r = card {l \<in> set (likes d). like_tweet l = Some (tweet_id t)}
              \<and> isLiked r = (\<exists>l \<in> set (likes d).
                                like_tweet l = Some (tweet_id t) \<and> likedBy l = viewer))
           (filter (\<lambda>t. tweetOwner t = viewer) (tweets d))
           (getUserTweets_aggregate d viewer)
       \<and> (\<forall>name r d'. getUserChannelProfile d viewer name = (Inr r, d') \<longrightarrow>
            (\<exists>u. find (\<lambda>u. username u = toLowerCase name) (users d) = Some u
               \<and> channel_id (data (body r)) = user_id u
               \<and> subscribersCount (data (body r))
                    = card {e \<in> set (subscriptions d). channel e = user_id u}
               \<and> isSubscribed (data (body r))
                    = (\<exists>e \<in> set (subscriptions d).
                         channel e = user_id u \<and> subscriber e = viewer)))"
proof (intro conjI allI impI)
  show "list_all2
           (\<lambda>t r. row_id r = tweet_id t
              \<and> likeCount r = card {l \<in> set (likes d). like_tweet l = Some (tweet_id t)}
              \<and> isLiked r = (\<exists>l \<in> set (likes d).
                                like_tweet l = Some (tweet_id t) \<and> likedBy l = viewer))
           (filter (\<lambda>t. tweetOwner t = viewer) (tweets d))
           (getUserTweets_aggregate d viewer)"
    unfolding getUserTweets_aggregate_def list_all2_map2
    by (rule list_all2_refl) (simp add: compose_tweet_fields [OF assms(1)])
next
  fix name r d'
  assume "getUserChannelProfile d viewer name = (Inr r, d')"
  then obtain u where "find (\<lambda>u. username u = toLowerCase name) (users d) = Some u"
    and "data (body r) = compose_channel d viewer u"
    using getUserChannelProfile_success by blast
  then show "\<exists>u. find (\<lambda>u. username u = toLowerCase name) (users d) = Some u
               \<and> channel_id (data (body r)) = user_id u
               \<and> subscribersCount (data (body r))
                    = card {e \<in> set (subscriptions d). channel e = user_id u}
               \<and> isSubscribed (data (body r))
                    = (\<exists>e \<in> set (subscriptions d).
                         channel e = user_id u \<and> subscriber e = viewer)"
    by (simp add: compose_channel_fields [OF assms(2)])
qed

lemma toLowerCase_Alice: "toLowerCase ''Alice'' = ''alice''"
  by code_simp

text \<open>
  The instance: Alice's feed, which has one row, and Alice's channel profile as Bob, her
  subscriber, sees it under the name \<open>Alice\<close>.
\<close>

theorem composer_counts_and_flags_witness:
  "distinct (map like_id (likes example_db))
   \<and> distinct (map subscription_id (subscriptions example_db))
   \<and> getUserTweets_aggregate example_db alice_id \<noteq> []
   \<and> list_all2
        (\<lambda>t r. row_id r = tweet_id t
           \<and> likeCount r = card {l \<in> set (likes example_db). like_tweet l = Some (tweet_id t)}
           \<and> isLiked r = (\<exists>l \<in> set (likes example_db).
                             like_tweet l = Some (tweet_id t) \<and> likedBy l = alice_id))
        (filter (\<lambda>t. tweetOwner t = alice_id) (tweets example_db))
        (getUserTweets_aggregate example_db alice_id)
   \<and> (\<exists>r. fst (getUserChannelProfile example_db bob_id ''Alice'') = Inr r
          \<and> channel_id (data (body r)) = alice_id
          \<and> subscribersCount (data (body r))
               = card {e \<in> set (subscriptions example_db). channel e = alice_id}
          \<and> isSubscribed (data (body r)))"
proof -
  have h1: "distinct (map like_id (likes example_db))"
    by (simp add: example_defs)
  have h2: "distinct (map subscription_id (subscriptions example_db))"
    by (simp add: example_defs)
  have h3: "getUserTweets_aggregate example_db alice_id \<noteq> []"
    by (simp add: getUserTweets_aggregate_def example_defs)
  note main = composer_counts_and_flags [OF h1 h2]
  obtain r where sent: "getUserChannelProfile example_db bob_id ''Alice'' = (Inr r, example_db)"
    by (simp add: getUserChannelProfile_def trim_def is_space_def toLowerCase_Alice Let_def
        example_defs)
  have first_user: "find (\<lambda>u. username u = toLowerCase ''Alice'') (users example_db) = Some alice"
    by (simp add: toLowerCase_Alice example_defs)
  from main [of bob_id] sent first_user
  have profile: "channel_id (data (body r)) = user_id alice
    \<and> subscribersCount (data (body r))
         = card {e \<in> set (subscriptions example_db). channel e = user_id alice}
    \<and> isSubscribed (data (body r))
         = (\<exists>e \<in> set (subscriptions example_db).
              channel e = user_id alice \<and> subscriber e = bob_id)"
    by fastforce
  have edge: "\<exists>e \<in> set (subscriptions example_db).
                channel e = user_id alice \<and> subscriber e = bob_id"
    by (simp add: example_defs)
  have alice: "user_id alice = alice_id"
    by (simp add: alice_def)
  from profile edge alice sent
  have "\<exists>r. fst (getUserChannelProfile example_db bob_id ''Alice'') = Inr r
          \<and> channel_id (data (body r)) = alice_id
          \<and> subscribersCount (data (body r))
               = card {e \<in> set (subscriptions example_db). channel e = alice_id}
          \<and> isSubscribed (data (body r))"
    by auto
  with h1 h2 h3 main [of alice_id] show ?thesis
    by blast
qed

subsection \<open>Owner enrichment and the credential fields\<close>

lemma same_public_project:
  "same_public_fields u u' \<Longrightarrow>
     user_id u' = user_id u \<and> project_profile u' = project_profile u
     \<and> watchHistory u' = watchHistory u"
  by (simp add: same_public_fields_def project_profile_def)

lemma lookup_users_same:
  assumes "list_all2 same_public_fields us us'"
  shows "map project_profile (filter (\<lambda>u. user_id u = i) us')
       = map project_profile (filter (\<lambda>u. user_id u = i) us)"
  using assms by (induction rule: list_all2_induct) (auto dest: same_public_project)

lemma lookup_users_update:
  "list_all2 same_public_fields (users d) us' \<Longrightarrow>
   lookup_users (d\<lparr>users := us'\<rparr>) i = lookup_users d i"
  by (simp add: lookup_users_def lookup_users_same)

lemma compose_tweet_update:
  "list_all2 same_public_fields (users d) us' \<Longrightarrow>
   compose_tweet (d\<lparr>users := us'\<rparr>) viewer t = compose_tweet d viewer t"
  by (simp add: compose_tweet_def lookup_users_update lookup_likes_def)

lemma lookup_watchHistory_update:
  "list_all2 same_public_fields (users d) us' \<Longrightarrow> watchHistory u' = watchHistory u \<Longrightarrow>
   lookup_watchHistory (d\<lparr>users := us'\<rparr>) u' = lookup_watchHistory d u"
  by (simp add: lookup_watchHistory_def compose_video_def lookup_users_update)

lemma matched_users_same:
  assumes "list_all2 same_public_fields us us'"
    and "\<And>u u'. same_public_fields u u' \<Longrightarrow> f' u' = f u"
  shows "map f' (filter (\<lambda>u. user_id u = i) us') = map f (filter (\<lambda>u. user_id u = i) us)"
  using assms(1)
  by (induction rule: list_all2_induct) (auto dest: same_public_project simp: assms(2))

text \<open>What \<^verbatim>\<open>getWatchHistory\<close> sends depends on the matched users' joined videos only.\<close>

lemma getWatchHistory_fst:
  "fst (getWatchHistory d viewer) =
     (case map (lookup_watchHistory d) (filter (\<lambda>u. user_id u = viewer) (users d)) of
        [] \<Rightarrow> Inl (TypeError ''Cannot read properties of undefined (reading watchHistory)'')
      | w # _ \<Rightarrow> Inr \<lparr>status = 200, cookies = [],
                       body = mkApiResponse 200 w ''Watch history fetched successfully''\<rparr>)"
  by (cases "filter (\<lambda>u. user_id u = viewer) (users d)")
     (simp_all add: getWatchHistory_def Let_def)

text \<open>
  Claim C7. Owner enrichment projects the owner's id, \<^verbatim>\<open>fullName\<close>, \<^verbatim>\<open>username\<close> and
  \<^verbatim>\<open>avatar\<close> only. For two stores that differ only in the passwords, refresh tokens and
  emails of their users, the composed tweet feed is the same (and so is what the feed
  handler does), and the watch history that is sent is the same.
\<close>

theorem owner_enrichment_hides_credentials:
  assumes "list_all2 same_public_fields (users d) us'"
  shows "getUserTweets_aggregate (d\<lparr>users := us'\<rparr>) viewer = getUserTweets_aggregate d viewer
       \<and> fst (getUserTweets (d\<lparr>users := us'\<rparr>) viewer) = fst (getUserTweets d viewer)
       \<and> fst (getWatchHistory (d\<lparr>users := us'\<rparr>) viewer) = fst (getWatchHistory d viewer)"
proof -
  have feed: "getUserTweets_aggregate (d\<lparr>users := us'\<rparr>) viewer
                = getUserTweets_aggregate d viewer"
    using assms by (simp add: getUserTweets_aggregate_def compose_tweet_update)
  have handler: "fst (getUserTweets (d\<lparr>users := us'\<rparr>) viewer) = fst (getUserTweets d viewer)"
    by (simp add: getUserTweets_def)
  have "map (lookup_watchHistory (d\<lparr>users := us'\<rparr>)) (filter (\<lambda>u. user_id u = viewer) us')
      = map (lookup_watchHistory d) (filter (\<lambda>u. user_id u = viewer) (users d))"
    using assms
    by (rule matched_users_same)
       (simp add: lookup_watchHistory_update [OF assms] same_public_project)
  then have history: "fst (getWatchHistory (d\<lparr>users := us'\<rparr>) viewer)
                        = fst (getWatchHistory d viewer)"
    by (simp add: getWatchHistory_fst)
  from feed handler history show ?thesis
    by simp
qed

text \<open>
  The instance: the example store and the same store after both users changed their
  password and refresh token, and Alice her email. Alice's feed has a row, and Bob's
  watch history a video of Alice.
\<close>

theorem owner_enrichment_hides_credentials_witness:
  "list_all2 same_public_fields (users example_db) rotated_users
   \<and> users example_db \<noteq> rotated_users
   \<and> getUserTweets_aggregate (example_db\<lparr>users := rotated_users\<rparr>) alice_id
       = getUserTweets_aggregate example_db alice_id
   \<and> getUserTweets_aggregate example_db alice_id \<noteq> []
   \<and> fst (getWatchHistory (example_db\<lparr>users := rotated_users\<rparr>) bob_id)
       = fst (getWatchHistory example_db bob_id)"
proof -
  have h: "list_all2 same_public_fields (users example_db) rotated_users"
    by (simp add: same_public_fields_def rotated_users_def example_defs)
  have ne: "users example_db \<noteq> rotated_users"
    by (simp add: rotated_users_def example_defs)
  have nonempty: "getUserTweets_aggregate example_db alice_id \<noteq> []"
    by (simp add: getUserTweets_aggregate_def example_defs)
  show ?thesis
    using h ne nonempty
      owner_enrichment_hides_credentials [OF h, of alice_id]
      owner_enrichment_hides_credentials [OF h, of bob_id]
    by simp
qed

section \<open>Registration without an avatar\<close>

text \<open>
  On a request that passes the checks of the fields and of the existing users, the
  handler fails with status 400 and leaves the store as it was when \<^verbatim>\<open>req.files\<close> is
  missing, when the avatar array is empty, when the avatar's path is empty, and when the
  upload of the avatar returns null.
\<close>

lemma registerUser_avatar_required:
  assumes "\<not> list_ex (\<lambda>field. trim field = [])
              [body_fullName b, body_email b, body_username b, body_password b]"
    and "User_findOne d (body_username b) (body_email b) = None"
    and "files = None \<or> (\<exists>fs. files = Some fs \<and> files_avatar fs = Some [])
         \<or> (\<exists>p. avatarLocalPath files = Inr (Some p)
                \<and> (p = [] \<or> uploadOnCloudinary (Some p) = None))"
  shows "registerUser uploadOnCloudinary newId d b files =
           (Inl (ApiError 400 ''Avatar file is required''), d)"
  using assms
  by (auto simp add: registerUser_def avatarLocalPath_def truthy_def Let_def)

text \<open>
  Claim C8. A registration whose avatar file is missing, or whose avatar upload fails,
  fails with BadRequest and creates no user. Evaluated on a request that passes the
  earlier checks and whose \<^verbatim>\<open>req.files\<close> holds a cover image and no avatar: no user is
  created, and what the handler throws is a \<^verbatim>\<open>TypeError\<close>, not an \<^verbatim>\<open>ApiError\<close> of
  status 400.
\<close>

theorem registerUser_missing_avatar_TypeError:
  "registerUser example_upload ada_id example_db ada_body
     (Some \<lparr>files_avatar = None, files_coverImage = Some [\<lparr>path = ''/tmp/cover.png''\<rparr>]\<rparr>) =
   (Inl (TypeError ''Cannot read properties of undefined (reading 0)''), example_db)"
  by (simp add: registerUser_def avatarLocalPath_def User_findOne_def trim_def is_space_def
      ada_body_def example_defs)

end
